theory Spec2Isabelle
  imports Main
begin

section \<open>Data model (types.ts)\<close>

text \<open>
  Strings are byte strings (UTF-8). Optional fields (\<^verbatim>\<open>field?: string\<close>) are
  \<open>string option\<close>, with \<open>None\<close> for \<^verbatim>\<open>undefined\<close>. The quantity
  \<^verbatim>\<open>shortageQty: number\<close> is an integer, as the data model of the specification
  has it.
\<close>

datatype UserRole = ADMIN | SCHEDULER | PURCHASER | BUSINESS

record UserRoleRow =
  username :: string
  role :: UserRole

text \<open>\<^verbatim>\<open>Omit<ERPRawRow, 'id'>\<close>, the element type of a shortage batch, and
  \<^verbatim>\<open>ERPRawRow\<close>, which adds the id.\<close>

record ERPInput =
  model :: string
  workOrder :: string
  partNumber :: string
  partName :: string
  specification_f :: string
  supplier :: string
  shortageQty :: int
  requiredDate :: string
  uploadBatch :: string

record ERPRawRow = ERPInput +
  erpId :: string

text \<open>The element type of the argument of \<^verbatim>\<open>importWODetails\<close>.\<close>

record WODetail =
  workOrder :: string
  model :: string
  vendor :: string
  stage :: "string option"
  productPartNumber :: "string option"
  productionDate :: "string option"

datatype Status = Pending | Confirmed | Late | Ready

text \<open>The field \<^verbatim>\<open>stage\<close> is declared as one of three literals, but the imports
  store any string in it (\<^verbatim>\<open>s as any\<close>), so it is a string here. The field
  \<^verbatim>\<open>id\<close> is called \<open>rowId\<close>, the field of the part's specification
  \<open>specification_f\<close>.\<close>

record TrackingRow =
  rowId :: string
  model :: string
  workOrder :: string
  productPartNumber :: "string option"
  partNumber :: string
  partName :: string
  specification_f :: string
  stage :: string
  vendor :: string
  supplier :: string
  shortageQty :: int
  productionDate :: "string option"
  oqcDate :: string
  isMaterialReady :: bool
  purchaserReplyDate :: string
  purchaserRemark :: string
  status :: Status
  purchaserUsername :: string
  isArchived :: bool

record ReferenceRow =
  refType :: string
  refValue :: string

record SheetDatabase =
  usersRoles :: "UserRoleRow list"
  erpRawData :: "ERPRawRow list"
  trackingSchedule :: "TrackingRow list"
  referenceData :: "ReferenceRow list"

text \<open>The service object: the in-memory database \<^verbatim>\<open>this.db\<close> and the entry
  \<^verbatim>\<open>mock_sheet_db\<close> of the local storage (\<open>None\<close> while nothing was saved).\<close>

record Service =
  db :: SheetDatabase
  storage :: "SheetDatabase option"

text \<open>What the run-time environment gives while record number \<open>i\<close> of a batch is
  processed: the value of \<^verbatim>\<open>Date.now()\<close> and the decimal text of
  \<^verbatim>\<open>Math.random()\<close>.\<close>

record Env =
  dateNow :: "nat \<Rightarrow> nat"
  mathRandom :: "nat \<Rightarrow> string"

section \<open>String operations of the run-time library\<close>

text \<open>\<^verbatim>\<open>String.prototype.toLowerCase\<close> folds the letters of all of Unicode. The
  operations that call it take the folding function as their first argument
  \<open>toLowerCase\<close>, and what is proved about them holds for every such function. The
  function below folds the letters of ASCII and keeps the other bytes: it agrees with the
  library function on ASCII strings, and the examples use it.\<close>

definition asciiToLowerCase :: "string \<Rightarrow> string" where
  "asciiToLowerCase s =
     map (\<lambda>c. case map_of (zip ''ABCDEFGHIJKLMNOPQRSTUVWXYZ''
                                 ''abcdefghijklmnopqrstuvwxyz'') c of
                Some l \<Rightarrow> l
              | None \<Rightarrow> c) s"

text \<open>The decimal text of a natural number, as a template literal renders it.\<close>

fun natToString :: "nat \<Rightarrow> string" where
  "natToString n =
     (if n < 10 then [''0123456789'' ! n]
      else natToString (n div 10) @ [''0123456789'' ! (n mod 10)])"

declare natToString.simps [simp del]

text \<open>The white space and line terminators that \<^verbatim>\<open>trim\<close> strips, in UTF-8:
  U+0009 to U+000D, U+0020, U+00A0, U+1680, U+2000 to U+200A, U+2028, U+2029, U+202F,
  U+205F, U+3000, U+FEFF.\<close>

definition whiteSpace :: "string list" where
  "whiteSpace =
     [[CHR 0x09], [CHR 0x0A], [CHR 0x0B], [CHR 0x0C], [CHR 0x0D], [CHR 0x20],
      [CHR 0xC2, CHR 0xA0], [CHR 0xE1, CHR 0x9A, CHR 0x80],
      [CHR 0xE2, CHR 0x80, CHR 0x80], [CHR 0xE2, CHR 0x80, CHR 0x81],
      [CHR 0xE2, CHR 0x80, CHR 0x82], [CHR 0xE2, CHR 0x80, CHR 0x83],
      [CHR 0xE2, CHR 0x80, CHR 0x84], [CHR 0xE2, CHR 0x80, CHR 0x85],
      [CHR 0xE2, CHR 0x80, CHR 0x86], [CHR 0xE2, CHR 0x80, CHR 0x87],
      [CHR 0xE2, CHR 0x80, CHR 0x88], [CHR 0xE2, CHR 0x80, CHR 0x89],
      [CHR 0xE2, CHR 0x80, CHR 0x8A], [CHR 0xE2, CHR 0x80, CHR 0xA8],
      [CHR 0xE2, CHR 0x80, CHR 0xA9], [CHR 0xE2, CHR 0x80, CHR 0xAF],
      [CHR 0xE2, CHR 0x81, CHR 0x9F], [CHR 0xE3, CHR 0x80, CHR 0x80],
      [CHR 0xEF, CHR 0xBB, CHR 0xBF]]"

function stripLeading :: "string list \<Rightarrow> string \<Rightarrow> string" where
  "stripLeading ws s =
     (case find (\<lambda>w. w \<noteq> [] \<and> take (length w) s = w) ws of
        None \<Rightarrow> s
      | Some w \<Rightarrow> stripLeading ws (drop (length w) s))"
  by pat_completeness auto
termination
proof (relation "measure (\<lambda>(ws, s). length s)")
  show "wf (measure (\<lambda>(ws, s). length s))" by simp
next
  fix ws :: "string list" and s w :: string
  assume "find (\<lambda>w. w \<noteq> [] \<and> take (length w) s = w) ws = Some w"
  then have "w \<noteq> []" and "take (length w) s = w"
    by (auto simp: find_Some_iff)
  then have "s \<noteq> []" by auto
  with \<open>w \<noteq> []\<close> show "((ws, drop (length w) s), (ws, s)) \<in> measure (\<lambda>(ws, s). length s)"
    by simp
qed

definition trim :: "string \<Rightarrow> string" where
  "trim s = rev (stripLeading (map rev whiteSpace) (rev (stripLeading whiteSpace s)))"

text \<open>Truthiness of a string and of an optional string: \<^verbatim>\<open>undefined\<close> and
  \<^verbatim>\<open>''\<close> are falsy.\<close>

definition truthy :: "string option \<Rightarrow> bool" where
  "truthy v = (case v of None \<Rightarrow> False | Some s \<Rightarrow> s \<noteq> [])"

section \<open>The service (MockSheetService)\<close>

definition save :: "Service \<Rightarrow> Service" where
  "save s = s\<lparr>storage := Some (db s)\<rparr>"

subsection \<open>Status calculator\<close>

definition calculateStatus :: "TrackingRow \<Rightarrow> Status" where
  "calculateStatus row =
     (if isMaterialReady row then Ready
      else if purchaserReplyDate row = [] then Pending
      else Confirmed)"

subsection \<open>Users\<close>

definition login :: "(string \<Rightarrow> string) \<Rightarrow> string \<Rightarrow> Service \<Rightarrow> (UserRoleRow \<times> UserRole) option" where
  "login toLowerCase name s =
     (case find (\<lambda>u. toLowerCase (username u) = toLowerCase name) (usersRoles (db s)) of
        Some userMap \<Rightarrow> Some (userMap, role userMap)
      | None \<Rightarrow> None)"

definition addUser :: "(string \<Rightarrow> string) \<Rightarrow> UserRoleRow \<Rightarrow> Service \<Rightarrow> Service \<times> bool" where
  "addUser toLowerCase user s =
     (if list_ex (\<lambda>u. toLowerCase (username u) = toLowerCase (username user))
           (usersRoles (db s))
      then (s, False)
      else (save (s\<lparr>db := (db s)\<lparr>usersRoles := usersRoles (db s) @ [user]\<rparr>\<rparr>), True))"

definition deleteUser :: "string \<Rightarrow> Service \<Rightarrow> Service \<times> bool" where
  "deleteUser name s =
     (let initialLen = length (usersRoles (db s));
          s' = s\<lparr>db := (db s)\<lparr>usersRoles :=
                  filter (\<lambda>u. username u \<noteq> name) (usersRoles (db s))\<rparr>\<rparr>;
          success = (length (usersRoles (db s')) < initialLen)
      in (if success then save s' else s', success))"

text \<open>The user-management view (App.tsx) lists the users and shows the delete button of
  a user only when \<^verbatim>\<open>u.username !== 'admin'\<close>; the button calls
  \<^verbatim>\<open>deleteUser(u.username)\<close>. These are the arguments the view can pass.\<close>

definition deletableInView :: "Service \<Rightarrow> string list" where
  "deletableInView s =
     map username (filter (\<lambda>u. username u \<noteq> ''admin'') (usersRoles (db s)))"

subsection \<open>Shortage import\<close>

datatype Mode = Replace | Merge

text \<open>The grouping \<^verbatim>\<open>incomingByWO\<close> of the batch by work order. It is a plain
  object, so a read \<^verbatim>\<open>incomingByWO[k]\<close> at a name of \<^verbatim>\<open>Object.prototype\<close>
  gives the inherited value, which is truthy and has no \<^verbatim>\<open>push\<close>: for a record
  with such a work order the call \<^verbatim>\<open>incomingByWO[k].push(d)\<close> throws a
  \<^verbatim>\<open>TypeError\<close>. At every other name the object is an association list of its own
  keys, in the order of their insertion.\<close>

datatype JsError = TypeError

definition objectPrototypeNames :: "string list" where
  "objectPrototypeNames =
     [''constructor'', ''__defineGetter__'', ''__defineSetter__'', ''hasOwnProperty'',
      ''__lookupGetter__'', ''__lookupSetter__'', ''isPrototypeOf'',
      ''propertyIsEnumerable'', ''toString'', ''valueOf'', ''__proto__'',
      ''toLocaleString'']"

fun incomingByWO_loop :: "ERPInput list \<Rightarrow> (string \<times> ERPInput list) list \<Rightarrow> JsError + (string \<times> ERPInput list) list" where
  "incomingByWO_loop [] acc = Inr acc"
| "incomingByWO_loop (d # ds) acc =
     (if ERPInput.workOrder d \<in> set objectPrototypeNames then Inl TypeError
      else incomingByWO_loop ds
             (case map_of acc (ERPInput.workOrder d) of
                None \<Rightarrow> acc @ [(ERPInput.workOrder d, [d])]
              | Some xs \<Rightarrow>
                  map (\<lambda>(k, v). if k = ERPInput.workOrder d then (k, v @ [d]) else (k, v))
                    acc))"

definition incomingByWO :: "ERPInput list \<Rightarrow> JsError + (string \<times> ERPInput list) list" where
  "incomingByWO data = incomingByWO_loop data []"

text \<open>\<^verbatim>\<open>targetWOs = Object.keys(incomingByWO)\<close> is the list of the keys; it is used
  only through \<^verbatim>\<open>targetWOs.includes\<close>, so the order of the keys does not matter.\<close>

definition Object_keys :: "(string \<times> 'v) list \<Rightarrow> string list" where
  "Object_keys obj = map fst obj"


record Meta =
  metaModel :: string
  metaVendor :: string
  metaStage :: string
  prodDate :: "string option"
  productPN :: "string option"

definition defaultMeta :: Meta where
  "defaultMeta =
     \<lparr>metaModel = ''Unknown'', metaVendor = [], metaStage = ''SMT'',
      prodDate = Some [], productPN = Some []\<rparr>"

text \<open>\<^verbatim>\<open>v || ''\<close> on an optional string.\<close>

definition orEmpty :: "string option \<Rightarrow> string" where
  "orEmpty v = (case v of None \<Rightarrow> [] | Some s \<Rightarrow> s)"

text \<open>The metadata of the first row of each target work order among the given rows. The
  object \<^verbatim>\<open>metadataMap\<close> is read and written only at target work orders and at
  the work orders of the batch, which are own keys of \<^verbatim>\<open>incomingByWO\<close> and so
  no names of \<^verbatim>\<open>Object.prototype\<close>: a map on strings.\<close>

definition metadataMap :: "(string \<Rightarrow> bool) \<Rightarrow> TrackingRow list \<Rightarrow> (string \<rightharpoonup> Meta)" where
  "metadataMap includes rows =
     fold (\<lambda>r m.
             if includes (workOrder r) then
               (case m (workOrder r) of
                  None \<Rightarrow>
                    m(workOrder r \<mapsto>
                       \<lparr>metaModel = model r, metaVendor = vendor r, metaStage = stage r,
                        prodDate = Some (orEmpty (productionDate r)),
                        productPN = Some (orEmpty (productPartNumber r))\<rparr>)
                | Some x \<Rightarrow> m)
             else m)
          rows Map.empty"

text \<open>A row inserted by an import: the purchaser and readiness fields are reset.\<close>

definition newRow :: "string \<Rightarrow> string \<Rightarrow> Meta \<Rightarrow> ERPInput \<Rightarrow> TrackingRow" where
  "newRow i m meta d =
     \<lparr>rowId = i, model = m, workOrder = ERPInput.workOrder d,
      productPartNumber = productPN meta, partNumber = ERPInput.partNumber d,
      partName = ERPInput.partName d, specification_f = ERPInput.specification_f d,
      stage = metaStage meta, vendor = metaVendor meta, supplier = ERPInput.supplier d,
      shortageQty = ERPInput.shortageQty d, productionDate = prodDate meta,
      oqcDate = [], isMaterialReady = False, purchaserReplyDate = [],
      purchaserRemark = [], status = Pending, purchaserUsername = [],
      isArchived = False\<rparr>"

text \<open>Step 3 of the replace policy: one row per record, in the order of the batch;
  \<open>i\<close> is the index of the record.\<close>

fun replaceRows :: "Env \<Rightarrow> (string \<rightharpoonup> Meta) \<Rightarrow> nat \<Rightarrow> ERPInput list \<Rightarrow> TrackingRow list" where
  "replaceRows env mm i [] = []"
| "replaceRows env mm i (d # ds) =
     (let meta = (case mm (ERPInput.workOrder d) of Some x \<Rightarrow> x | None \<Rightarrow> defaultMeta)
      in newRow (''track-'' @ natToString (dateNow env i) @ ''-'' @ natToString i)
           (if ERPInput.model d \<noteq> [] then ERPInput.model d else metaModel meta) meta d)
     # replaceRows env mm (Suc i) ds"

text \<open>The replace policy, statement by statement: the rows of the target work orders
  are removed, the metadata map is built from the rows that are left, the rows of the
  target work orders are removed once more, and the new rows are appended.\<close>

definition replaceShortages :: "Env \<Rightarrow> string list \<Rightarrow> ERPInput list \<Rightarrow> TrackingRow list \<Rightarrow> TrackingRow list" where
  "replaceShortages env targetWOs data rows =
     (let rows1 = filter (\<lambda>row. workOrder row \<notin> set targetWOs) rows;
          mm = metadataMap (\<lambda>w. w \<in> set targetWOs) rows1;
          rows2 = filter (\<lambda>row. workOrder row \<notin> set targetWOs) rows1;
          newRows = replaceRows env mm 0 data
      in rows2 @ newRows)"

text \<open>The merge policy. The keys are the template literals
  \<^verbatim>\<open>`${workOrder}-${partNumber}`\<close>. The map \<^verbatim>\<open>existingMap\<close> holds
  references to the row objects of the array; here it holds their indices, and an
  update through a reference is an update of the array at that index.\<close>

definition rowKey :: "TrackingRow \<Rightarrow> string" where
  "rowKey row = workOrder row @ ''-'' @ partNumber row"

definition dataKey :: "ERPInput \<Rightarrow> string" where
  "dataKey d = ERPInput.workOrder d @ ''-'' @ ERPInput.partNumber d"

fun existingMapFrom :: "nat \<Rightarrow> TrackingRow list \<Rightarrow> (string \<rightharpoonup> nat) \<Rightarrow> (string \<rightharpoonup> nat)" where
  "existingMapFrom i [] m = m"
| "existingMapFrom i (row # rows) m = existingMapFrom (Suc i) rows (m(rowKey row \<mapsto> i))"

definition existingMap :: "TrackingRow list \<Rightarrow> (string \<rightharpoonup> nat)" where
  "existingMap rows = existingMapFrom 0 rows Map.empty"

text \<open>The metadata a new row of the merge policy takes from a sibling row: the
  optional fields are copied as they are.\<close>

definition siblingMeta :: "TrackingRow \<Rightarrow> Meta" where
  "siblingMeta r =
     \<lparr>metaModel = model r, metaVendor = vendor r, metaStage = stage r,
      prodDate = productionDate r, productPN = productPartNumber r\<rparr>"

text \<open>The body of the loop "Update or Add", for record \<open>d\<close> at index \<open>i\<close>.\<close>

definition mergeRecord :: "(string \<rightharpoonup> nat) \<Rightarrow> Env \<Rightarrow> nat \<Rightarrow> ERPInput \<Rightarrow> TrackingRow list \<Rightarrow> TrackingRow list" where
  "mergeRecord em env i d rows =
     (case em (dataKey d) of
        Some j \<Rightarrow>
          rows[j := (rows ! j)\<lparr>shortageQty := ERPInput.shortageQty d,
                               status := (if ERPInput.shortageQty d = 0 then Ready
                                          else status (rows ! j))\<rparr>]
      | None \<Rightarrow>
          (let meta = (case find (\<lambda>r. workOrder r = ERPInput.workOrder d) rows of
                         Some sibling \<Rightarrow> siblingMeta sibling
                       | None \<Rightarrow> defaultMeta)
           in rows @ [newRow (''track-merge-'' @ natToString (dateNow env i) @ ''-''
                                @ mathRandom env i)
                        (metaModel meta) meta d]))"

fun mergeLoop :: "(string \<rightharpoonup> nat) \<Rightarrow> Env \<Rightarrow> nat \<Rightarrow> ERPInput list \<Rightarrow> TrackingRow list \<Rightarrow> TrackingRow list" where
  "mergeLoop em env i [] rows = rows"
| "mergeLoop em env i (d # ds) rows = mergeLoop em env (Suc i) ds (mergeRecord em env i d rows)"

text \<open>The resolution sweep over the rows.\<close>

definition sweepRow :: "string list \<Rightarrow> ERPInput list \<Rightarrow> TrackingRow \<Rightarrow> TrackingRow" where
  "sweepRow targetWOs data row =
     (if workOrder row \<in> set targetWOs then
        (if rowKey row \<notin> set (map dataKey data) \<and> partNumber row \<noteq> ''WO_INFO_ONLY''
         then row\<lparr>shortageQty := 0, status := Ready\<rparr>
         else row)
      else row)"

definition mergeShortages :: "Env \<Rightarrow> string list \<Rightarrow> ERPInput list \<Rightarrow> TrackingRow list \<Rightarrow> TrackingRow list" where
  "mergeShortages env targetWOs data rows =
     map (sweepRow targetWOs data) (mergeLoop (existingMap rows) env 0 data rows)"

text \<open>The call: the service after it, and what it gives, the thrown error or the value
  returned. When the grouping throws, nothing was written yet and the service is as it
  was.\<close>

definition importShortages :: "Env \<Rightarrow> ERPInput list \<Rightarrow> Mode \<Rightarrow> Service \<Rightarrow> Service \<times> (JsError + bool)" where
  "importShortages env data mode s =
     (case incomingByWO data of
        Inl e \<Rightarrow> (s, Inl e)
      | Inr byWO \<Rightarrow>
          (let targetWOs = Object_keys byWO;
               rows' = (case mode of
                          Replace \<Rightarrow>
                            replaceShortages env targetWOs data (trackingSchedule (db s))
                        | Merge \<Rightarrow>
                            mergeShortages env targetWOs data (trackingSchedule (db s)))
           in (save (s\<lparr>db := (db s)\<lparr>trackingSchedule := rows'\<rparr>\<rparr>), Inr True)))"


subsection \<open>Work-order detail import\<close>

text \<open>The stage of a record: \<^verbatim>\<open>info.stage?.trim() || 'SMT'\<close>, then the three
  localized labels (U+6253 U+4EF6, U+7D44 U+88DD, U+5305 U+88DD) are mapped to the
  canonical names.\<close>

definition normStage :: "string option \<Rightarrow> string" where
  "normStage v =
     (let s0 = (case v of None \<Rightarrow> [] | Some t \<Rightarrow> trim t);
          s1 = (if s0 = [] then ''SMT'' else s0);
          s2 = (if s1 = [CHR 0xE6, CHR 0x89, CHR 0x93, CHR 0xE4, CHR 0xBB, CHR 0xB6]
                then ''SMT'' else s1);
          s3 = (if s2 = [CHR 0xE7, CHR 0xB5, CHR 0x84, CHR 0xE8, CHR 0xA3, CHR 0x9D]
                then ''Assembly'' else s2);
          s4 = (if s3 = [CHR 0xE5, CHR 0x8C, CHR 0x85, CHR 0xE8, CHR 0xA3, CHR 0x9D]
                then ''Packing'' else s3)
      in s4)"

definition skeleton :: "Env \<Rightarrow> nat \<Rightarrow> WODetail \<Rightarrow> TrackingRow" where
  "skeleton env i info =
     \<lparr>rowId = ''skel-'' @ natToString (dateNow env i) @ ''-'' @ mathRandom env i,
      model = WODetail.model info, workOrder = WODetail.workOrder info,
      productPartNumber = WODetail.productPartNumber info,
      partNumber = ''WO_INFO_ONLY'', partName = [], specification_f = [],
      stage = normStage (WODetail.stage info), vendor = WODetail.vendor info,
      supplier = [], shortageQty = 0,
      productionDate = WODetail.productionDate info,
      oqcDate = [], isMaterialReady = False, purchaserReplyDate = [],
      purchaserRemark = [], status = Ready, purchaserUsername = [],
      isArchived = False\<rparr>"

text \<open>The metadata update of one row of the record's work order: a field is assigned
  only when the record's value is truthy.\<close>

definition updateMeta :: "WODetail \<Rightarrow> TrackingRow \<Rightarrow> TrackingRow" where
  "updateMeta info row =
     row\<lparr>model := (if WODetail.model info \<noteq> [] then WODetail.model info else model row),
         vendor := (if WODetail.vendor info \<noteq> [] then WODetail.vendor info else vendor row),
         productPartNumber := (if truthy (WODetail.productPartNumber info)
                               then WODetail.productPartNumber info
                               else productPartNumber row),
         productionDate := (if truthy (WODetail.productionDate info)
                            then WODetail.productionDate info
                            else productionDate row),
         stage := (if truthy (WODetail.stage info) then normStage (WODetail.stage info)
                   else stage row)\<rparr>"

text \<open>The body of the loop over the records, on the rows and \<^verbatim>\<open>updatedCount\<close>.\<close>

definition woRecord :: "Env \<Rightarrow> nat \<Rightarrow> WODetail \<Rightarrow> TrackingRow list \<times> nat \<Rightarrow> TrackingRow list \<times> nat" where
  "woRecord env i info st =
     (let rows = fst st; updatedCount = snd st;
          exists = list_ex (\<lambda>row. workOrder row = WODetail.workOrder info) rows
      in if \<not> exists then (rows @ [skeleton env i info], updatedCount + 1)
         else (map (\<lambda>row. if workOrder row = WODetail.workOrder info
                           then updateMeta info row else row) rows,
               updatedCount
                 + length (filter (\<lambda>row. workOrder row = WODetail.workOrder info) rows)))"

fun woLoop :: "Env \<Rightarrow> nat \<Rightarrow> WODetail list \<Rightarrow> TrackingRow list \<times> nat \<Rightarrow> TrackingRow list \<times> nat" where
  "woLoop env i [] st = st"
| "woLoop env i (info # infos) st = woLoop env (Suc i) infos (woRecord env i info st)"

definition importWODetails :: "Env \<Rightarrow> WODetail list \<Rightarrow> Service \<Rightarrow> Service \<times> bool" where
  "importWODetails env data s =
     (let res = woLoop env 0 data (trackingSchedule (db s), 0);
          s' = s\<lparr>db := (db s)\<lparr>trackingSchedule := fst res\<rparr>\<rparr>
      in if snd res > 0 then (save s', True) else (s', False))"

section \<open>Example states\<close>

text \<open>Concrete users, rows, records and an environment, for the instances below.\<close>

definition adminRow :: UserRoleRow where
  "adminRow = \<lparr>username = ''admin'', role = ADMIN\<rparr>"

definition aliceRow :: UserRoleRow where
  "aliceRow = \<lparr>username = ''alice'', role = PURCHASER\<rparr>"

definition serviceOf :: "UserRoleRow list \<Rightarrow> TrackingRow list \<Rightarrow> Service" where
  "serviceOf us rows =
     \<lparr>db = \<lparr>usersRoles = us, erpRawData = [], trackingSchedule = rows,
              referenceData = []\<rparr>,
      storage = None\<rparr>"

definition exampleEnv :: Env where
  "exampleEnv = \<lparr>dateNow = (\<lambda>i. 1000), mathRandom = (\<lambda>i. ''0.5'')\<rparr>"

definition shortage :: "string \<Rightarrow> string \<Rightarrow> int \<Rightarrow> ERPInput" where
  "shortage wo pn q =
     \<lparr>ERPInput.model = [], workOrder = wo, partNumber = pn, partName = [],
      specification_f = [], supplier = [], shortageQty = q, requiredDate = [],
      uploadBatch = []\<rparr>"

definition trackingRow :: "string \<Rightarrow> string \<Rightarrow> int \<Rightarrow> Status \<Rightarrow> TrackingRow" where
  "trackingRow wo pn q st =
     \<lparr>rowId = ''row-'' @ pn, model = ''ModelA'', workOrder = wo,
      productPartNumber = Some ''P-100'', partNumber = pn, partName = ''Resistor'',
      specification_f = ''10k'', stage = ''Assembly'', vendor = ''VendorX'',
      supplier = ''SupplierY'', shortageQty = q, productionDate = Some ''2025-01-15'',
      oqcDate = ''2025-03-01'', isMaterialReady = False,
      purchaserReplyDate = ''2025-02-01'', purchaserRemark = ''on order'', status = st,
      purchaserUsername = ''alice'', isArchived = False\<rparr>"

definition woA :: WODetail where
  "woA = \<lparr>WODetail.workOrder = ''WO-1'', model = ''ModelA'', vendor = ''VendorX'',
          stage = Some ''Assembly'', productPartNumber = Some ''P-100'',
          productionDate = Some ''2025-01-15''\<rparr>"

definition vendorOnly :: WODetail where
  "vendorOnly = \<lparr>WODetail.workOrder = ''WO-1'', model = [], vendor = ''VendorZ'',
                 stage = None, productPartNumber = None, productionDate = Some []\<rparr>"

section \<open>Auxiliary definitions\<close>

text \<open>The two assignments of the update branch of the merge loop, on one row.\<close>

definition applyRecord :: "ERPInput \<Rightarrow> TrackingRow \<Rightarrow> TrackingRow" where
  "applyRecord d r =
     r\<lparr>shortageQty := ERPInput.shortageQty d,
       status := (if ERPInput.shortageQty d = 0 then Ready else status r)\<rparr>"

section \<open>Status calculator\<close>

text \<open>
  C8. For every tracking row the derived status is \<open>Ready\<close> if the row is material
  ready, else \<open>Pending\<close> if the purchaser reply date is empty, else \<open>Confirmed\<close>;
  the calculator returns \<open>Late\<close> for no row.
\<close>

theorem calculateStatus_cases:
  "calculateStatus row =
     (if isMaterialReady row then Ready
      else if purchaserReplyDate row = [] then Pending else Confirmed)
   \<and> calculateStatus row \<noteq> Late"
  by (simp add: calculateStatus_def)

section \<open>Users\<close>

lemma deleteUser_users:
  "usersRoles (db (fst (deleteUser name s))) =
     filter (\<lambda>u. username u \<noteq> name) (usersRoles (db s))"
  by (simp add: deleteUser_def Let_def save_def)

lemma filter_shorter_iff:
  "(length (filter P xs) < length xs) = (\<exists>x\<in>set xs. \<not> P x)"
proof (induction xs)
  case Nil
  show ?case by simp
next
  case (Cons x xs)
  have "length (filter P xs) \<le> length xs" by simp
  with Cons show ?case by auto
qed

lemma deleteUser_success:
  "snd (deleteUser name s) = (\<exists>u\<in>set (usersRoles (db s)). username u = name)"
  by (simp add: deleteUser_def Let_def filter_shorter_iff)

lemma deleteUser_absent:
  assumes "\<forall>u\<in>set (usersRoles (db s)). username u \<noteq> name"
  shows "deleteUser name s = (s, False)"
proof -
  from assms have keep: "filter (\<lambda>u. username u \<noteq> name) (usersRoles (db s)) = usersRoles (db s)"
    by (simp add: filter_id_conv)
  then show ?thesis
    by (simp add: deleteUser_def Let_def)
qed

lemma other_case_absent:
  assumes uniq: "distinct (map (\<lambda>u. toLowerCase (username u)) us)"
    and u: "u \<in> set us" and same: "toLowerCase (username u) = toLowerCase name"
    and diff: "username u \<noteq> name"
  shows "\<forall>v\<in>set us. username v \<noteq> name"
proof
  fix v assume v: "v \<in> set us"
  show "username v \<noteq> name"
  proof
    assume eq: "username v = name"
    from uniq have "inj_on (\<lambda>u. toLowerCase (username u)) (set us)"
      by (simp add: distinct_map)
    moreover from eq same have "toLowerCase (username v) = toLowerCase (username u)" by simp
    ultimately have "v = u" using u v by (auto dest: inj_onD)
    with eq diff show False by simp
  qed
qed

text \<open>
  C9, as the claim states it, fails: \<open>deleteUser\<close> has no guard of its own, and
  called with \<open>''admin''\<close> it removes the built-in account.
\<close>

theorem deleteUser_admin_counterexample:
  "adminRow \<in> set (usersRoles (db (serviceOf [adminRow, aliceRow] [])))
   \<and> username adminRow = ''admin''
   \<and> adminRow \<notin> set (usersRoles (db (fst (deleteUser ''admin''
                                             (serviceOf [adminRow, aliceRow] [])))))"
  by (simp add: deleteUser_users serviceOf_def adminRow_def aliceRow_def)

lemma deletableInView_not_admin:
  "name \<in> set (deletableInView s) \<Longrightarrow> name \<noteq> ''admin''"
  by (auto simp: deletableInView_def)

text \<open>
  C9, as the code has it. The built-in account stays for every argument other than
  \<open>''admin''\<close>, and these are the arguments the user-management view passes: it
  offers the deletion only for user names other than \<open>''admin''\<close>.
\<close>

theorem deleteUser_keeps_admin:
  assumes "name \<noteq> ''admin'' \<or> name \<in> set (deletableInView s)"
    and "u \<in> set (usersRoles (db s))" and "username u = ''admin''"
  shows "u \<in> set (usersRoles (db (fst (deleteUser name s))))"
proof -
  from assms(1) have "name \<noteq> ''admin''"
    using deletableInView_not_admin by blast
  with assms(2,3) show ?thesis
    by (simp add: deleteUser_users)
qed

theorem deleteUser_keeps_admin_witness:
  "''alice'' \<in> set (deletableInView (serviceOf [adminRow, aliceRow] []))
   \<and> adminRow \<in> set (usersRoles (db (serviceOf [adminRow, aliceRow] [])))
   \<and> username adminRow = ''admin''
   \<and> adminRow \<in> set (usersRoles (db (fst (deleteUser ''alice''
                                             (serviceOf [adminRow, aliceRow] [])))))"
proof -
  have h1: "''alice'' \<in> set (deletableInView (serviceOf [adminRow, aliceRow] []))"
    by (simp add: deletableInView_def serviceOf_def adminRow_def aliceRow_def)
  have h2: "adminRow \<in> set (usersRoles (db (serviceOf [adminRow, aliceRow] [])))"
    by (simp add: serviceOf_def)
  have h3: "username adminRow = ''admin''"
    by (simp add: adminRow_def)
  from h1 have h1': "''alice'' \<noteq> ''admin'' \<or>
      ''alice'' \<in> set (deletableInView (serviceOf [adminRow, aliceRow] []))" by simp
  show ?thesis
    using h1 h2 h3 deleteUser_keeps_admin [OF h1' h2 h3] by simp
qed

text \<open>
  C10. \<open>deleteUser\<close> compares user names character for character: it removes exactly
  the records whose user name equals the argument, returns true iff there was one, and
  saves iff it returns true. Where the user names are unique up to case, as \<open>addUser\<close>
  keeps them, a differently-cased spelling of an existing user name returns false and
  leaves the service as it was, the storage included. Here \<open>toLowerCase\<close> is any
  folding function, that of the run-time library among them.
\<close>

theorem deleteUser_case_sensitive:
  "usersRoles (db (fst (deleteUser name s))) =
     filter (\<lambda>u. username u \<noteq> name) (usersRoles (db s))
   \<and> snd (deleteUser name s) = (\<exists>u\<in>set (usersRoles (db s)). username u = name)
   \<and> storage (fst (deleteUser name s)) =
       (if snd (deleteUser name s) then Some (db (fst (deleteUser name s))) else storage s)
   \<and> (distinct (map (\<lambda>u. toLowerCase (username u)) (usersRoles (db s)))
        \<and> u \<in> set (usersRoles (db s))
        \<and> toLowerCase (username u) = toLowerCase name \<and> username u \<noteq> name
      \<longrightarrow> deleteUser name s = (s, False))"
proof -
  have "storage (fst (deleteUser name s)) =
       (if snd (deleteUser name s) then Some (db (fst (deleteUser name s))) else storage s)"
    by (simp add: deleteUser_def Let_def save_def)
  moreover have "distinct (map (\<lambda>u. toLowerCase (username u)) (usersRoles (db s)))
        \<and> u \<in> set (usersRoles (db s))
        \<and> toLowerCase (username u) = toLowerCase name \<and> username u \<noteq> name
      \<longrightarrow> deleteUser name s = (s, False)"
    using other_case_absent deleteUser_absent by blast
  ultimately show ?thesis
    using deleteUser_users deleteUser_success by simp
qed

theorem deleteUser_case_sensitive_witness:
  "distinct (map (\<lambda>u. asciiToLowerCase (username u))
       (usersRoles (db (serviceOf [adminRow, aliceRow] []))))
   \<and> aliceRow \<in> set (usersRoles (db (serviceOf [adminRow, aliceRow] [])))
   \<and> asciiToLowerCase (username aliceRow) = asciiToLowerCase ''Alice''
   \<and> username aliceRow \<noteq> ''Alice''
   \<and> deleteUser ''Alice'' (serviceOf [adminRow, aliceRow] [])
       = (serviceOf [adminRow, aliceRow] [], False)
   \<and> login asciiToLowerCase ''Alice'' (serviceOf [adminRow, aliceRow] []) = Some (aliceRow, PURCHASER)
   \<and> snd (addUser asciiToLowerCase \<lparr>username = ''Alice'', role = ADMIN\<rparr>
             (serviceOf [adminRow, aliceRow] [])) = False"
proof -
  have h: "distinct (map (\<lambda>u. asciiToLowerCase (username u))
       (usersRoles (db (serviceOf [adminRow, aliceRow] []))))
   \<and> aliceRow \<in> set (usersRoles (db (serviceOf [adminRow, aliceRow] [])))
   \<and> asciiToLowerCase (username aliceRow) = asciiToLowerCase ''Alice''
   \<and> username aliceRow \<noteq> ''Alice''"
    by (simp add: serviceOf_def adminRow_def aliceRow_def asciiToLowerCase_def)
  have l: "login asciiToLowerCase ''Alice'' (serviceOf [adminRow, aliceRow] []) = Some (aliceRow, PURCHASER)"
    by (simp add: login_def serviceOf_def adminRow_def aliceRow_def asciiToLowerCase_def)
  have a: "snd (addUser asciiToLowerCase \<lparr>username = ''Alice'', role = ADMIN\<rparr>
             (serviceOf [adminRow, aliceRow] [])) = False"
    by (simp add: addUser_def serviceOf_def adminRow_def aliceRow_def asciiToLowerCase_def)
  show ?thesis
    using h l a
      deleteUser_case_sensitive [where name = "''Alice''"
        and s = "serviceOf [adminRow, aliceRow] []" and u = aliceRow
        and toLowerCase = asciiToLowerCase]
    by simp
qed

section \<open>Shortage import, replace policy\<close>

lemma step_keys:
  "set (map fst (case map_of acc w of
                None \<Rightarrow> acc @ [(w, [d])]
              | Some xs \<Rightarrow> map (\<lambda>(k, v). if k = w then (k, v @ [d]) else (k, v)) acc))
     = insert w (set (map fst acc))"
proof (cases "map_of acc w")
  case None
  then show ?thesis by simp
next
  case (Some xs)
  then have in_acc: "w \<in> fst ` set acc"
    by (metis map_of_eq_None_iff option.distinct(1))
  have same: "map fst (map (\<lambda>(k, v). if k = w then (k, v @ [d]) else (k, v)) acc)
                     = map fst acc"
    by (induction acc) (simp_all add: case_prod_beta)
  from in_acc have "insert w (fst ` set acc) = fst ` set acc" by blast
  with Some same show ?thesis by simp
qed

lemma incomingByWO_loop_keys:
  "incomingByWO_loop data acc = Inr res \<Longrightarrow>
     set (map fst res) = set (map fst acc) \<union> ERPInput.workOrder ` set data"
proof (induction data arbitrary: acc)
  case Nil
  then show ?case by simp
next
  case (Cons d ds)
  let ?w = "ERPInput.workOrder d"
  let ?acc' = "case map_of acc ?w of
                None \<Rightarrow> acc @ [(?w, [d])]
              | Some xs \<Rightarrow> map (\<lambda>(k, v). if k = ?w then (k, v @ [d]) else (k, v)) acc"
  have ok: "?w \<notin> set objectPrototypeNames"
  proof
    assume "?w \<in> set objectPrototypeNames"
    then have "incomingByWO_loop (d # ds) acc = Inl TypeError" by simp
    with Cons.prems show False by simp
  qed
  then have "incomingByWO_loop (d # ds) acc = incomingByWO_loop ds ?acc'" by simp
  with Cons.prems have rest: "incomingByWO_loop ds ?acc' = Inr res" by simp
  have "set (map fst res) = set (map fst ?acc') \<union> ERPInput.workOrder ` set ds"
    using rest by (rule Cons.IH)
  also have "set (map fst ?acc') = insert ?w (set (map fst acc))" by (rule step_keys)
  finally show ?case by simp
qed

lemma incomingByWO_loop_throws:
  "\<exists>d\<in>set data. ERPInput.workOrder d \<in> set objectPrototypeNames \<Longrightarrow>
     incomingByWO_loop data acc = Inl TypeError"
proof (induction data arbitrary: acc)
  case Nil
  then show ?case by simp
next
  case (Cons d ds)
  show ?case
  proof (cases "ERPInput.workOrder d \<in> set objectPrototypeNames")
    case True
    then show ?thesis by simp
  next
    case False
    with Cons.prems have "\<exists>d\<in>set ds. ERPInput.workOrder d \<in> set objectPrototypeNames"
      by auto
    then show ?thesis using False by (simp add: Cons.IH)
  qed
qed


text \<open>The call throws exactly when a record of the batch has a work order that names a
  property of \<^verbatim>\<open>Object.prototype\<close>, and then the service is as before; otherwise it
  returns true, and the target work orders are those of the batch.\<close>

lemma importShortages_throws:
  assumes "\<exists>d\<in>set data. ERPInput.workOrder d \<in> set objectPrototypeNames"
  shows "importShortages env data mode s = (s, Inl TypeError)"
proof -
  from assms have "incomingByWO data = Inl TypeError"
    unfolding incomingByWO_def by (rule incomingByWO_loop_throws)
  then show ?thesis by (simp add: importShortages_def)
qed

lemma importShortages_constructor_throws:
  "importShortages exampleEnv
       [shortage ''WO-1'' ''PN-1'' 0, shortage ''constructor'' ''PN-2'' 1] Merge
       (serviceOf [] [trackingRow ''WO-1'' ''PN-1'' 5 Pending])
     = (serviceOf [] [trackingRow ''WO-1'' ''PN-1'' 5 Pending], Inl TypeError)"
  by (rule importShortages_throws) (simp add: shortage_def objectPrototypeNames_def)

lemma importShortages_returned:
  assumes "snd (importShortages env data mode s) = Inr True"
  obtains targetWOs where "set targetWOs = ERPInput.workOrder ` set data"
    and "trackingSchedule (db (fst (importShortages env data mode s))) =
           (case mode of
              Replace \<Rightarrow> replaceShortages env targetWOs data (trackingSchedule (db s))
            | Merge \<Rightarrow> mergeShortages env targetWOs data (trackingSchedule (db s)))"
proof (cases "incomingByWO data")
  case (Inl e)
  then have "snd (importShortages env data mode s) = Inl e"
    by (simp add: importShortages_def)
  with assms show ?thesis by simp
next
  case (Inr byWO)
  then have "incomingByWO_loop data [] = Inr byWO" by (simp add: incomingByWO_def)
  then have keys: "set (Object_keys byWO) = ERPInput.workOrder ` set data"
    using incomingByWO_loop_keys [of data "[]" byWO] by (simp add: Object_keys_def)
  have rows: "trackingSchedule (db (fst (importShortages env data mode s))) =
           (case mode of
              Replace \<Rightarrow> replaceShortages env (Object_keys byWO) data (trackingSchedule (db s))
            | Merge \<Rightarrow> mergeShortages env (Object_keys byWO) data (trackingSchedule (db s)))"
    using Inr by (cases mode) (simp_all add: importShortages_def Let_def save_def)
  from keys rows show ?thesis by (rule that)
qed



lemma importShortages_merge_returned:
  assumes "snd (importShortages env data Merge s) = Inr True"
  obtains targetWOs where "set targetWOs = ERPInput.workOrder ` set data"
    and "trackingSchedule (db (fst (importShortages env data Merge s))) =
           mergeShortages env targetWOs data (trackingSchedule (db s))"
proof -
  from assms obtain targetWOs where "set targetWOs = ERPInput.workOrder ` set data"
    and "trackingSchedule (db (fst (importShortages env data Merge s))) =
           (case Merge of
              Replace \<Rightarrow> replaceShortages env targetWOs data (trackingSchedule (db s))
            | Merge \<Rightarrow> mergeShortages env targetWOs data (trackingSchedule (db s)))"
    by (rule importShortages_returned)
  then show ?thesis using that by simp
qed

lemma importShortages_replace_returned:
  assumes "snd (importShortages env data Replace s) = Inr True"
  obtains targetWOs where "set targetWOs = ERPInput.workOrder ` set data"
    and "trackingSchedule (db (fst (importShortages env data Replace s))) =
           replaceShortages env targetWOs data (trackingSchedule (db s))"
proof -
  from assms obtain targetWOs where "set targetWOs = ERPInput.workOrder ` set data"
    and "trackingSchedule (db (fst (importShortages env data Replace s))) =
           (case Replace of
              Replace \<Rightarrow> replaceShortages env targetWOs data (trackingSchedule (db s))
            | Merge \<Rightarrow> mergeShortages env targetWOs data (trackingSchedule (db s)))"
    by (rule importShortages_returned)
  then show ?thesis using that by simp
qed

lemma metadataMap_fold_none:
  assumes "\<forall>r\<in>set rows. \<not> includes (workOrder r)"
  shows "fold (\<lambda>r m.
             if includes (workOrder r) then
               (case m (workOrder r) of
                  None \<Rightarrow>
                    m(workOrder r \<mapsto>
                       \<lparr>metaModel = model r, metaVendor = vendor r, metaStage = stage r,
                        prodDate = Some (orEmpty (productionDate r)),
                        productPN = Some (orEmpty (productPartNumber r))\<rparr>)
                | Some x \<Rightarrow> m)
             else m)
          rows m0 = m0"
  using assms by (induction rows arbitrary: m0) auto

lemma metadataMap_after_delete:
  "metadataMap includes (filter (\<lambda>row. \<not> includes (workOrder row)) rows) = Map.empty"
  unfolding metadataMap_def by (rule metadataMap_fold_none) simp

lemma replaceShortages_defaults:
  "replaceShortages env targetWOs data rows =
     filter (\<lambda>row. workOrder row \<notin> set targetWOs) rows
       @ replaceRows env Map.empty 0 data"
  using metadataMap_after_delete [of "\<lambda>w. w \<in> set targetWOs" rows]
  by (simp add: replaceShortages_def Let_def)

text \<open>What the replace policy does give for a work order of the batch: one row per record
  of that work order, in the order of the batch, with the defaults and the reset fields.\<close>

lemma replaceRows_of_workOrder:
  "map (\<lambda>r. (partNumber r, shortageQty r, model r, vendor r, stage r, status r,
              isMaterialReady r, isArchived r, oqcDate r, purchaserReplyDate r,
              purchaserRemark r))
       (filter (\<lambda>r. workOrder r = W) (replaceRows env Map.empty n data)) =
   map (\<lambda>d. (ERPInput.partNumber d, ERPInput.shortageQty d,
              (if ERPInput.model d \<noteq> [] then ERPInput.model d else ''Unknown''),
              [], ''SMT'', Pending, False, False, [], [], []))
       (filter (\<lambda>d. ERPInput.workOrder d = W) data)"
  by (induction data arbitrary: n) (simp_all add: newRow_def defaultMeta_def)

lemma replace_rows_of_target:
  assumes "W \<in> set targetWOs"
  shows "map (\<lambda>r. (partNumber r, shortageQty r, model r, vendor r, stage r, status r,
              isMaterialReady r, isArchived r, oqcDate r, purchaserReplyDate r,
              purchaserRemark r))
       (filter (\<lambda>r. workOrder r = W) (replaceShortages env targetWOs data rows)) =
   map (\<lambda>d. (ERPInput.partNumber d, ERPInput.shortageQty d,
              (if ERPInput.model d \<noteq> [] then ERPInput.model d else ''Unknown''),
              [], ''SMT'', Pending, False, False, [], [], []))
       (filter (\<lambda>d. ERPInput.workOrder d = W) data)"
proof -
  have "filter (\<lambda>r. workOrder r = W)
          (filter (\<lambda>row. workOrder row \<notin> set targetWOs) rows) = []"
    using assms by (auto simp: filter_empty_conv)
  then show ?thesis
    by (simp add: replaceShortages_defaults replaceRows_of_workOrder)
qed

text \<open>
  C1. Replace-policy import: the rows of a work order W after the import are to carry the
  metadata (model, vendor, stage, production date, product part number) of the first
  row W had before the import. The code removes the rows of the target work orders
  before it builds the metadata map, so the map is empty whatever the rows were
  (\<open>replaceShortages_defaults\<close>) and every new row takes the defaults
  (\<open>replace_rows_of_target\<close>). Below, a
  work-order import sets ModelA, VendorX and Assembly for WO-1; the replace import that
  follows leaves one row for WO-1 with Unknown, the empty vendor and SMT.
\<close>

theorem replace_loses_metadata:
  "map (\<lambda>r. (workOrder r, partNumber r, model r, vendor r, stage r))
       (trackingSchedule (db (fst (importWODetails exampleEnv [woA] (serviceOf [] [])))))
     = [(''WO-1'', ''WO_INFO_ONLY'', ''ModelA'', ''VendorX'', ''Assembly'')]
   \<and> map (\<lambda>r. (workOrder r, partNumber r, model r, vendor r, stage r))
       (trackingSchedule (db (fst (importShortages exampleEnv [shortage ''WO-1'' ''PN-1'' 5]
          Replace (fst (importWODetails exampleEnv [woA] (serviceOf [] [])))))))
     = [(''WO-1'', ''PN-1'', ''Unknown'', [], ''SMT'')]"
  by code_simp

section \<open>Shortage import, merge policy\<close>


lemma existingMapFrom_Some:
  "existingMapFrom n rows m k = Some j \<Longrightarrow>
     m k = Some j \<or> (n \<le> j \<and> j - n < length rows \<and> rowKey (rows ! (j - n)) = k)"
proof (induction rows arbitrary: n m)
  case Nil
  then show ?case by simp
next
  case (Cons r rs)
  from Cons.prems have "existingMapFrom (Suc n) rs (m(rowKey r \<mapsto> n)) k = Some j" by simp
  from Cons.IH [OF this]
  consider "(m(rowKey r \<mapsto> n)) k = Some j"
    | "Suc n \<le> j" "j - Suc n < length rs" "rowKey (rs ! (j - Suc n)) = k"
    by blast
  then show ?case
  proof cases
    case 1
    then show ?thesis by (auto split: if_splits)
  next
    case 2
    then have "j - n = Suc (j - Suc n)" by simp
    with 2 show ?thesis by simp
  qed
qed

lemma existingMap_Some:
  "existingMap rows k = Some j \<Longrightarrow> j < length rows \<and> rowKey (rows ! j) = k"
  unfolding existingMap_def by (drule existingMapFrom_Some) simp



lemma mergeRecord_length: "length rows \<le> length (mergeRecord em env n d rows)"
  by (simp add: mergeRecord_def Let_def split: option.splits)

lemma mergeRecord_nth:
  assumes "i < length rows"
  shows "mergeRecord em env n d rows ! i =
           (if em (dataKey d) = Some i then applyRecord d (rows ! i) else rows ! i)"
  using assms
  by (auto simp: mergeRecord_def Let_def applyRecord_def nth_append split: option.splits)

lemma mergeLoop_length: "length rows \<le> length (mergeLoop em env n ds rows)"
proof (induction ds arbitrary: n rows)
  case Nil
  show ?case by simp
next
  case (Cons d ds)
  have "length rows \<le> length (mergeRecord em env n d rows)" by (rule mergeRecord_length)
  also have "\<dots> \<le> length (mergeLoop em env (Suc n) ds (mergeRecord em env n d rows))"
    by (rule Cons.IH)
  finally show ?case by simp
qed

lemma mergeLoop_nth:
  assumes "i < length rows"
  shows "mergeLoop em env n ds rows ! i =
           fold applyRecord (filter (\<lambda>d. em (dataKey d) = Some i) ds) (rows ! i)"
  using assms
proof (induction ds arbitrary: n rows)
  case Nil
  show ?case by simp
next
  case (Cons d ds)
  have len: "i < length (mergeRecord em env n d rows)"
    using Cons.prems mergeRecord_length [of rows em env n d] by simp
  show ?case
    using Cons.IH [OF len] by (simp add: mergeRecord_nth [OF Cons.prems])
qed



lemma fold_applyRecord_status:
  "status (fold applyRecord ms r) =
     (if \<exists>d\<in>set ms. ERPInput.shortageQty d = 0 then Ready else status r)"
  by (induction ms arbitrary: r) (auto simp: applyRecord_def)

lemma fold_applyRecord_qty:
  "shortageQty (fold applyRecord ms r) =
     (if ms = [] then shortageQty r else ERPInput.shortageQty (last ms))"
  by (induction ms arbitrary: r) (auto simp: applyRecord_def)

text \<open>
  The keys are concatenations, so two different pairs can have one key. Where a theorem
  on the merge policy speaks of keys, it is of these concatenations, as the code does.
\<close>

lemma key_collision:
  "rowKey \<lparr>rowId = i, model = m, workOrder = ''A'', productPartNumber = pp,
            partNumber = ''B-C'', partName = pn, specification_f = sp, stage = sg,
            vendor = v, supplier = su, shortageQty = q, productionDate = pd,
            oqcDate = od, isMaterialReady = mr, purchaserReplyDate = rd,
            purchaserRemark = rm, status = st, purchaserUsername = pu,
            isArchived = ar\<rparr>
   = dataKey (shortage ''A-B'' ''C'' q')"
  by (simp add: rowKey_def dataKey_def shortage_def)


lemma sweepRow_hit:
  assumes "workOrder r \<in> set targetWOs"
    and "rowKey r \<notin> dataKey ` set data" and "partNumber r \<noteq> ''WO_INFO_ONLY''"
  shows "sweepRow targetWOs data r = r\<lparr>shortageQty := 0, status := Ready\<rparr>"
  using assms by (simp add: sweepRow_def)


lemma sweepRow_cases:
  "sweepRow targetWOs data r = r
   \<or> sweepRow targetWOs data r = r\<lparr>shortageQty := 0, status := Ready\<rparr>"
  by (simp add: sweepRow_def)

lemma mergeShortages_nth:
  assumes "i < length rows"
  shows "mergeShortages env targetWOs data rows ! i =
           sweepRow targetWOs data
             (fold applyRecord (filter (\<lambda>d. existingMap rows (dataKey d) = Some i) data)
                (rows ! i))"
proof -
  have "i < length (mergeLoop (existingMap rows) env 0 data rows)"
    using assms mergeLoop_length [of rows "existingMap rows" env 0 data] by simp
  then show ?thesis
    by (simp add: mergeShortages_def mergeLoop_nth [OF assms])
qed

lemma matched_empty:
  assumes "rowKey (rows ! i) \<notin> dataKey ` set data"
  shows "filter (\<lambda>d. existingMap rows (dataKey d) = Some i) data = []"
proof -
  have "\<forall>d\<in>set data. existingMap rows (dataKey d) \<noteq> Some i"
  proof
    fix d assume d: "d \<in> set data"
    show "existingMap rows (dataKey d) \<noteq> Some i"
    proof
      assume "existingMap rows (dataKey d) = Some i"
      then have "rowKey (rows ! i) = dataKey d" by (simp add: existingMap_Some)
      with d assms show False by auto
    qed
  qed
  then show ?thesis by (simp add: filter_empty_conv)
qed

text \<open>The pairs (workOrder, partNumber) after a merge-policy import are those of the rows
  before, followed by those of the records whose key the lookup does not have. They stay
  unique when no pair occurs twice in the batch.\<close>

lemma existingMapFrom_dom:
  "dom (existingMapFrom n rows m) = dom m \<union> rowKey ` set rows"
  by (induction rows arbitrary: n m) auto

lemma existingMap_None:
  "existingMap rows k = None \<Longrightarrow> k \<notin> rowKey ` set rows"
proof -
  assume "existingMap rows k = None"
  then have "k \<notin> dom (existingMap rows)" by (simp add: domIff)
  then show ?thesis by (simp add: existingMap_def existingMapFrom_dom)
qed

lemma mergeRecord_pairs:
  "map (\<lambda>r. (workOrder r, partNumber r)) (mergeRecord em env n d rows) =
     (case em (dataKey d) of
        None \<Rightarrow> map (\<lambda>r. (workOrder r, partNumber r)) rows
                 @ [(ERPInput.workOrder d, ERPInput.partNumber d)]
      | Some j \<Rightarrow> map (\<lambda>r. (workOrder r, partNumber r)) rows)"
proof (cases "em (dataKey d)")
  case None
  then show ?thesis by (simp add: mergeRecord_def Let_def newRow_def)
next
  case (Some j)
  show ?thesis
  proof (cases "j < length rows")
    case True
    then show ?thesis using Some
      by (simp add: mergeRecord_def map_update list_update_same_conv)
  next
    case False
    then have "length rows \<le> j" by simp
    then show ?thesis using Some by (simp add: mergeRecord_def list_update_beyond)
  qed
qed

lemma mergeLoop_pairs:
  "map (\<lambda>r. (workOrder r, partNumber r)) (mergeLoop em env n ds rows) =
     map (\<lambda>r. (workOrder r, partNumber r)) rows
       @ map (\<lambda>d. (ERPInput.workOrder d, ERPInput.partNumber d))
           (filter (\<lambda>d. em (dataKey d) = None) ds)"
proof (induction ds arbitrary: n rows)
  case Nil
  show ?case by simp
next
  case (Cons d ds)
  show ?case
    by (cases "em (dataKey d)") (simp_all add: Cons.IH mergeRecord_pairs)
qed

lemma sweepRow_pair:
  "(workOrder (sweepRow targetWOs data r), partNumber (sweepRow targetWOs data r))
     = (workOrder r, partNumber r)"
  by (simp add: sweepRow_def)

lemma merge_keeps_unique_without_repeats:
  assumes rows: "distinct (map (\<lambda>r. (workOrder r, partNumber r)) rows)"
    and data: "distinct (map (\<lambda>d. (ERPInput.workOrder d, ERPInput.partNumber d)) data)"
  shows "distinct (map (\<lambda>r. (workOrder r, partNumber r))
           (mergeShortages env targetWOs data rows))"
proof -
  let ?new = "filter (\<lambda>d. existingMap rows (dataKey d) = None) data"
  have eq: "map (\<lambda>r. (workOrder r, partNumber r)) (mergeShortages env targetWOs data rows) =
        map (\<lambda>r. (workOrder r, partNumber r)) rows
          @ map (\<lambda>d. (ERPInput.workOrder d, ERPInput.partNumber d)) ?new"
    by (simp add: mergeShortages_def o_def sweepRow_pair mergeLoop_pairs)
  have new: "distinct (map (\<lambda>d. (ERPInput.workOrder d, ERPInput.partNumber d)) ?new)"
    using data by (rule distinct_map_filter)
  have disj: "set (map (\<lambda>r. (workOrder r, partNumber r)) rows)
        \<inter> set (map (\<lambda>d. (ERPInput.workOrder d, ERPInput.partNumber d)) ?new) = {}"
  proof (rule ccontr)
    assume "\<not> ?thesis"
    then obtain r d where r: "r \<in> set rows" and d: "d \<in> set data"
      and none: "existingMap rows (dataKey d) = None"
      and same: "workOrder r = ERPInput.workOrder d" "partNumber r = ERPInput.partNumber d"
      by auto
    from same have "rowKey r = dataKey d" by (simp add: rowKey_def dataKey_def)
    with r have "dataKey d \<in> rowKey ` set rows" by force
    with existingMap_None [OF none] show False by simp
  qed
  from rows new disj show ?thesis unfolding eq by simp
qed

text \<open>
  C2. Uniqueness of the pair (workOrder, partNumber) under the merge policy. The lookup
  \<open>existingMap\<close> is built once, before the loop, and is not extended when a row is
  added: two records of one batch with the same key and no existing row are both added.
  From the empty tracking schedule, where the pairs are unique, a batch with the record
  (WO-1, PN-1) twice gives two rows with that pair. A batch without such a repetition
  keeps the pairs unique (\<open>merge_keeps_unique_without_repeats\<close>).
\<close>

theorem merge_duplicates_in_batch:
  "distinct (map (\<lambda>r. (workOrder r, partNumber r))
       (trackingSchedule (db (serviceOf [] []))))
   \<and> map (\<lambda>r. (workOrder r, partNumber r))
       (trackingSchedule (db (fst (importShortages exampleEnv
          [shortage ''WO-1'' ''PN-1'' 5, shortage ''WO-1'' ''PN-1'' 3] Merge
          (serviceOf [] [])))))
     = [(''WO-1'', ''PN-1''), (''WO-1'', ''PN-1'')]"
  by code_simp

text \<open>The sweep resolves a row whose key, the concatenation, is not among the keys of the
  batch.\<close>

lemma merge_sweep_absent_key:
  assumes "snd (importShortages env data Merge s) = Inr True"
    and "i < length (trackingSchedule (db s))"
    and "workOrder (trackingSchedule (db s) ! i) \<in> ERPInput.workOrder ` set data"
    and "partNumber (trackingSchedule (db s) ! i) \<noteq> ''WO_INFO_ONLY''"
    and "rowKey (trackingSchedule (db s) ! i) \<notin> dataKey ` set data"
  shows "trackingSchedule (db (fst (importShortages env data Merge s))) ! i =
           (trackingSchedule (db s) ! i)\<lparr>shortageQty := 0, status := Ready\<rparr>"
proof -
  let ?rows = "trackingSchedule (db s)"
  from assms(1) obtain targetWOs where tw: "set targetWOs = ERPInput.workOrder ` set data"
    and after: "trackingSchedule (db (fst (importShortages env data Merge s))) =
                  mergeShortages env targetWOs data ?rows"
    by (rule importShortages_merge_returned)
  have "mergeShortages env targetWOs data ?rows ! i = sweepRow targetWOs data (?rows ! i)"
    by (simp add: mergeShortages_nth [OF assms(2)] matched_empty [OF assms(5)])
  also have "\<dots> = (?rows ! i)\<lparr>shortageQty := 0, status := Ready\<rparr>"
    using assms(3-5) tw by (simp add: sweepRow_hit)
  finally show ?thesis by (simp add: after)
qed

text \<open>
  C4. Resolution sweep of the merge policy: a row that was there before the import, whose
  work order occurs in the batch, whose part number is not the sentinel
  \<open>''WO_INFO_ONLY''\<close> and whose pair (workOrder, partNumber) no record of the batch
  has, is to end with quantity zero and status \<open>Ready\<close>. The code compares the
  concatenations \<open>rowKey\<close> and \<open>dataKey\<close>, and two different pairs can have one
  concatenation. Below, the row (A, B-C) with quantity 5 and status \<open>Confirmed\<close>, and
  the batch of (A-B, C) with quantity 7 and (A, X) with quantity 1: the work order A occurs
  in the batch, the part number is not the sentinel, no record has the pair (A, B-C), and
  the call returns. The record (A-B, C) has the key of the row, so the loop writes its
  quantity to the row and the sweep passes the row by: it ends with quantity 7 and status
  \<open>Confirmed\<close>.
\<close>

theorem merge_key_collision:
  "workOrder (trackingSchedule (db (serviceOf [] [trackingRow ''A'' ''B-C'' 5 Confirmed])) ! 0)
     \<in> ERPInput.workOrder ` set [shortage ''A-B'' ''C'' 7, shortage ''A'' ''X'' 1]
   \<and> partNumber (trackingSchedule (db (serviceOf [] [trackingRow ''A'' ''B-C'' 5 Confirmed])) ! 0)
       \<noteq> ''WO_INFO_ONLY''
   \<and> (workOrder (trackingSchedule (db (serviceOf [] [trackingRow ''A'' ''B-C'' 5 Confirmed])) ! 0),
       partNumber (trackingSchedule (db (serviceOf [] [trackingRow ''A'' ''B-C'' 5 Confirmed])) ! 0))
       \<notin> (\<lambda>d. (ERPInput.workOrder d, ERPInput.partNumber d))
            ` set [shortage ''A-B'' ''C'' 7, shortage ''A'' ''X'' 1]
   \<and> snd (importShortages exampleEnv [shortage ''A-B'' ''C'' 7, shortage ''A'' ''X'' 1] Merge
          (serviceOf [] [trackingRow ''A'' ''B-C'' 5 Confirmed])) = Inr True
   \<and> shortageQty (trackingSchedule (db (fst (importShortages exampleEnv
          [shortage ''A-B'' ''C'' 7, shortage ''A'' ''X'' 1] Merge
          (serviceOf [] [trackingRow ''A'' ''B-C'' 5 Confirmed])))) ! 0) = 7
   \<and> status (trackingSchedule (db (fst (importShortages exampleEnv
          [shortage ''A-B'' ''C'' 7, shortage ''A'' ''X'' 1] Merge
          (serviceOf [] [trackingRow ''A'' ''B-C'' 5 Confirmed])))) ! 0) = Confirmed"
  by code_simp




text \<open>
  C3, as the claim states it, fails for the rows an import inserts: under either policy a
  record with quantity zero gives a row with quantity zero and status \<open>Pending\<close>.
\<close>

theorem zero_quantity_insert_counterexample:
  "shortageQty (trackingSchedule (db (fst (importShortages exampleEnv
       [shortage ''WO-1'' ''PN-1'' 0] Replace (serviceOf [] [])))) ! 0) = 0
   \<and> status (trackingSchedule (db (fst (importShortages exampleEnv
       [shortage ''WO-1'' ''PN-1'' 0] Replace (serviceOf [] [])))) ! 0) = Pending
   \<and> shortageQty (trackingSchedule (db (fst (importShortages exampleEnv
       [shortage ''WO-1'' ''PN-1'' 0] Merge (serviceOf [] [])))) ! 0) = 0
   \<and> status (trackingSchedule (db (fst (importShortages exampleEnv
       [shortage ''WO-1'' ''PN-1'' 0] Merge (serviceOf [] [])))) ! 0) = Pending"
  by code_simp

text \<open>
  C3, as the code has it. For every row that was there before a merge-policy import and
  that the import writes to (the call returns, and the row is the one the key lookup
  returns for some record of the batch, or a row the resolution sweep hits): if its
  quantity is zero after the import, its status is \<open>Ready\<close>, whatever its status was
  before.
\<close>

theorem merge_zero_quantity_ready:
  assumes "snd (importShortages env data Merge s) = Inr True"
    and "i < length (trackingSchedule (db s))"
    and "(\<exists>d\<in>set data. existingMap (trackingSchedule (db s)) (dataKey d) = Some i)
         \<or> (workOrder (trackingSchedule (db s) ! i) \<in> ERPInput.workOrder ` set data
            \<and> partNumber (trackingSchedule (db s) ! i) \<noteq> ''WO_INFO_ONLY''
            \<and> rowKey (trackingSchedule (db s) ! i) \<notin> dataKey ` set data)"
    and "shortageQty (trackingSchedule (db (fst (importShortages env data Merge s))) ! i) = 0"
  shows "status (trackingSchedule (db (fst (importShortages env data Merge s))) ! i) = Ready"
proof -
  let ?rows = "trackingSchedule (db s)"
  let ?ms = "filter (\<lambda>d. existingMap ?rows (dataKey d) = Some i) data"
  let ?mid = "fold applyRecord ?ms (?rows ! i)"
  from assms(1) obtain targetWOs where tw: "set targetWOs = ERPInput.workOrder ` set data"
    and after: "trackingSchedule (db (fst (importShortages env data Merge s))) =
                  mergeShortages env targetWOs data ?rows"
    by (rule importShortages_merge_returned)
  have res: "trackingSchedule (db (fst (importShortages env data Merge s))) ! i
               = sweepRow targetWOs data ?mid"
    by (simp add: after mergeShortages_nth [OF assms(2)])
  show ?thesis
  proof (cases "?ms = []")
    case True
    then have "\<not> (\<exists>d\<in>set data. existingMap ?rows (dataKey d) = Some i)"
      by (simp add: filter_empty_conv)
    with assms(3) tw have "sweepRow targetWOs data (?rows ! i)
        = (?rows ! i)\<lparr>shortageQty := 0, status := Ready\<rparr>"
      by (simp add: sweepRow_hit)
    with True show ?thesis unfolding res by simp
  next
    case False
    from sweepRow_cases [of targetWOs data ?mid] show ?thesis
    proof
      assume keep: "sweepRow targetWOs data ?mid = ?mid"
      with assms(4) have "shortageQty ?mid = 0" unfolding res by simp
      with False have "ERPInput.shortageQty (last ?ms) = 0"
        by (simp add: fold_applyRecord_qty)
      moreover from False have "last ?ms \<in> set ?ms" by (rule last_in_set)
      ultimately have "\<exists>d\<in>set ?ms. ERPInput.shortageQty d = 0" by blast
      then have "status ?mid = Ready" by (simp add: fold_applyRecord_status)
      with keep show ?thesis unfolding res by simp
    next
      assume "sweepRow targetWOs data ?mid = ?mid\<lparr>shortageQty := 0, status := Ready\<rparr>"
      then show ?thesis unfolding res by simp
    qed
  qed
qed

theorem merge_zero_quantity_ready_witness:
  "snd (importShortages exampleEnv [shortage ''WO-1'' ''PN-1'' 0] Merge
         (serviceOf [] [trackingRow ''WO-1'' ''PN-1'' 5 Pending])) = Inr True
   \<and> 0 < length (trackingSchedule (db (serviceOf [] [trackingRow ''WO-1'' ''PN-1'' 5 Pending])))
   \<and> (\<exists>d\<in>set [shortage ''WO-1'' ''PN-1'' 0].
         existingMap (trackingSchedule (db (serviceOf [] [trackingRow ''WO-1'' ''PN-1'' 5 Pending])))
           (dataKey d) = Some 0)
   \<and> shortageQty (trackingSchedule (db (fst (importShortages exampleEnv
         [shortage ''WO-1'' ''PN-1'' 0] Merge
         (serviceOf [] [trackingRow ''WO-1'' ''PN-1'' 5 Pending])))) ! 0) = 0
   \<and> status (trackingSchedule (db (fst (importShortages exampleEnv
         [shortage ''WO-1'' ''PN-1'' 0] Merge
         (serviceOf [] [trackingRow ''WO-1'' ''PN-1'' 5 Pending])))) ! 0) = Ready"
proof -
  let ?s = "serviceOf [] [trackingRow ''WO-1'' ''PN-1'' 5 Pending]"
  let ?data = "[shortage ''WO-1'' ''PN-1'' 0]"
  have h0: "snd (importShortages exampleEnv ?data Merge ?s) = Inr True" by code_simp
  have h1: "0 < length (trackingSchedule (db ?s))" by code_simp
  have h2: "\<exists>d\<in>set ?data. existingMap (trackingSchedule (db ?s)) (dataKey d) = Some 0"
    by code_simp
  then have h2': "(\<exists>d\<in>set ?data. existingMap (trackingSchedule (db ?s)) (dataKey d) = Some 0)
         \<or> (workOrder (trackingSchedule (db ?s) ! 0) \<in> ERPInput.workOrder ` set ?data
            \<and> partNumber (trackingSchedule (db ?s) ! 0) \<noteq> ''WO_INFO_ONLY''
            \<and> rowKey (trackingSchedule (db ?s) ! 0) \<notin> dataKey ` set ?data)" by (rule disjI1)
  have h3: "shortageQty (trackingSchedule (db (fst (importShortages exampleEnv ?data Merge ?s)))
              ! 0) = 0" by code_simp
  from h0 h1 h2 h3 merge_zero_quantity_ready [OF h0 h1 h2' h3] show ?thesis by blast
qed

section \<open>Work-order detail import\<close>

lemma woRecord_new:
  assumes "\<forall>row\<in>set rows. workOrder row \<noteq> WODetail.workOrder info"
  shows "woRecord env n info (rows, c) = (rows @ [skeleton env n info], c + 1)"
  using assms by (simp add: woRecord_def Let_def list_ex_iff)

lemma woRecord_update:
  assumes "\<exists>row\<in>set rows. workOrder row = WODetail.workOrder info"
  shows "fst (woRecord env n info (rows, c)) =
           map (\<lambda>row. if workOrder row = WODetail.workOrder info
                       then updateMeta info row else row) rows"
  using assms by (simp add: woRecord_def Let_def list_ex_iff)

lemma updateMeta_workOrder: "workOrder (updateMeta info row) = workOrder row"
  by (simp add: updateMeta_def)

lemma filter_map_update:
  "filter (\<lambda>r. workOrder r = W)
       (map (\<lambda>row. if workOrder row = V then updateMeta info row else row) rows) =
     (if V = W then map (updateMeta info) (filter (\<lambda>r. workOrder r = W) rows)
      else filter (\<lambda>r. workOrder r = W) rows)"
  by (induction rows) (auto simp: updateMeta_workOrder)

lemma woRecord_other:
  assumes "WODetail.workOrder info \<noteq> W"
  shows "filter (\<lambda>r. workOrder r = W) (fst (woRecord env n info st)) =
         filter (\<lambda>r. workOrder r = W) (fst st)"
  using assms
  by (simp add: woRecord_def Let_def filter_map_update skeleton_def)

lemma woRecord_first:
  assumes "WODetail.workOrder info = W" and "filter (\<lambda>r. workOrder r = W) (fst st) = []"
  shows "filter (\<lambda>r. workOrder r = W) (fst (woRecord env n info st)) = [skeleton env n info]"
proof -
  from assms have "\<not> list_ex (\<lambda>row. workOrder row = WODetail.workOrder info) (fst st)"
    by (auto simp: list_ex_iff filter_empty_conv)
  with assms show ?thesis
    by (simp add: woRecord_def Let_def skeleton_def)
qed

lemma woRecord_again:
  assumes "WODetail.workOrder info = W" and "filter (\<lambda>r. workOrder r = W) (fst st) \<noteq> []"
  shows "filter (\<lambda>r. workOrder r = W) (fst (woRecord env n info st)) =
           map (updateMeta info) (filter (\<lambda>r. workOrder r = W) (fst st))"
proof -
  from assms have "list_ex (\<lambda>row. workOrder row = WODetail.workOrder info) (fst st)"
    by (auto simp: list_ex_iff filter_empty_conv)
  with assms(1) show ?thesis
    by (simp add: woRecord_def Let_def filter_map_update)
qed

lemma woLoop_known:
  assumes "filter (\<lambda>r. workOrder r = W) (fst st) = [x]"
  shows "filter (\<lambda>r. workOrder r = W) (fst (woLoop env n ds st)) =
           [fold updateMeta (filter (\<lambda>info. WODetail.workOrder info = W) ds) x]"
  using assms
proof (induction ds arbitrary: n st x)
  case Nil
  then show ?case by simp
next
  case (Cons d ds)
  show ?case
  proof (cases "WODetail.workOrder d = W")
    case True
    with Cons.prems have "filter (\<lambda>r. workOrder r = W) (fst (woRecord env n d st))
        = [updateMeta d x]"
      by (simp add: woRecord_again)
    from Cons.IH [OF this] True show ?thesis by simp
  next
    case False
    with Cons.prems have "filter (\<lambda>r. workOrder r = W) (fst (woRecord env n d st)) = [x]"
      by (simp add: woRecord_other)
    from Cons.IH [OF this] False show ?thesis by simp
  qed
qed

lemma woLoop_unknown:
  assumes "filter (\<lambda>r. workOrder r = W) (fst st) = []"
    and "filter (\<lambda>info. WODetail.workOrder info = W) ds = info # rest"
  shows "\<exists>m. filter (\<lambda>r. workOrder r = W) (fst (woLoop env n ds st)) =
           [fold updateMeta rest (skeleton env m info)]"
  using assms
proof (induction ds arbitrary: n st)
  case Nil
  then show ?case by simp
next
  case (Cons d ds)
  show ?case
  proof (cases "WODetail.workOrder d = W")
    case True
    with Cons.prems(2) have d: "d = info" and r: "filter (\<lambda>info. WODetail.workOrder info = W) ds = rest"
      by simp_all
    from True Cons.prems(1)
    have "filter (\<lambda>r. workOrder r = W) (fst (woRecord env n d st)) = [skeleton env n d]"
      by (rule woRecord_first)
    from woLoop_known [OF this] d r show ?thesis by auto
  next
    case False
    with Cons.prems have "filter (\<lambda>r. workOrder r = W) (fst (woRecord env n d st)) = []"
      and "filter (\<lambda>info. WODetail.workOrder info = W) ds = info # rest"
      by (simp_all add: woRecord_other)
    from Cons.IH [OF this] show ?thesis by simp
  qed
qed

lemma fold_updateMeta_shape:
  "\<exists>a b c d e. fold updateMeta infos x =
     x\<lparr>model := a, vendor := b, productPartNumber := c, productionDate := d, stage := e\<rparr>"
proof (induction infos arbitrary: x)
  case Nil
  have "x = x\<lparr>model := model x, vendor := vendor x,
              productPartNumber := productPartNumber x,
              productionDate := productionDate x, stage := stage x\<rparr>" by simp
  then show ?case by (metis fold_simps(1))
next
  case (Cons i infos)
  from Cons.IH [of "updateMeta i x"] obtain a b c d e where
    "fold updateMeta infos (updateMeta i x) =
       (updateMeta i x)\<lparr>model := a, vendor := b, productPartNumber := c,
                        productionDate := d, stage := e\<rparr>" by blast
  then have "fold updateMeta (i # infos) x =
       x\<lparr>model := a, vendor := b, productPartNumber := c, productionDate := d, stage := e\<rparr>"
    by (simp add: updateMeta_def)
  then show ?case by blast
qed

lemma importWODetails_rows:
  "trackingSchedule (db (fst (importWODetails env data s))) =
     fst (woLoop env 0 data (trackingSchedule (db s), 0))"
  by (simp add: importWODetails_def Let_def save_def)

text \<open>
  C6. Skeleton creation: a record whose work order no row has is answered with exactly one
  new row, appended to the rows: part number \<open>''WO_INFO_ONLY''\<close>, quantity zero,
  status \<open>Ready\<close>, not archived, purchaser fields empty, and the model, vendor, stage
  (normalised), product part number and production date of the record. Over a whole
  batch, a work order that no row had and that occurs in the batch ends with exactly one
  row, which has these sentinel fields.
\<close>

theorem importWODetails_creates_skeleton:
  "((\<forall>row\<in>set rows. workOrder row \<noteq> WODetail.workOrder info) \<longrightarrow>
      woRecord env n info (rows, c) = (rows @ [skeleton env n info], c + 1)
      \<and> trackingSchedule (db (fst (importWODetails env [info] (serviceOf us rows))))
          = rows @ [skeleton env 0 info])
   \<and> workOrder (skeleton env n info) = WODetail.workOrder info
   \<and> partNumber (skeleton env n info) = ''WO_INFO_ONLY''
   \<and> shortageQty (skeleton env n info) = 0
   \<and> status (skeleton env n info) = Ready
   \<and> isArchived (skeleton env n info) = False
   \<and> purchaserReplyDate (skeleton env n info) = []
   \<and> purchaserRemark (skeleton env n info) = []
   \<and> purchaserUsername (skeleton env n info) = []
   \<and> model (skeleton env n info) = WODetail.model info
   \<and> vendor (skeleton env n info) = WODetail.vendor info
   \<and> stage (skeleton env n info) = normStage (WODetail.stage info)
   \<and> productPartNumber (skeleton env n info) = WODetail.productPartNumber info
   \<and> productionDate (skeleton env n info) = WODetail.productionDate info
   \<and> ((\<forall>row\<in>set (trackingSchedule (db s)). workOrder row \<noteq> W)
        \<and> W \<in> WODetail.workOrder ` set data
      \<longrightarrow> (\<exists>sk. filter (\<lambda>r. workOrder r = W)
                     (trackingSchedule (db (fst (importWODetails env data s)))) = [sk]
                \<and> partNumber sk = ''WO_INFO_ONLY'' \<and> shortageQty sk = 0
                \<and> status sk = Ready \<and> isArchived sk = False
                \<and> purchaserReplyDate sk = [] \<and> purchaserRemark sk = []
                \<and> purchaserUsername sk = []))"
proof -
  have step: "(\<forall>row\<in>set rows. workOrder row \<noteq> WODetail.workOrder info) \<longrightarrow>
      woRecord env n info (rows, c) = (rows @ [skeleton env n info], c + 1)
      \<and> trackingSchedule (db (fst (importWODetails env [info] (serviceOf us rows))))
          = rows @ [skeleton env 0 info]"
    by (simp add: woRecord_new importWODetails_rows serviceOf_def)
  have batch: "(\<forall>row\<in>set (trackingSchedule (db s)). workOrder row \<noteq> W)
        \<and> W \<in> WODetail.workOrder ` set data
      \<longrightarrow> (\<exists>sk. filter (\<lambda>r. workOrder r = W)
                     (trackingSchedule (db (fst (importWODetails env data s)))) = [sk]
                \<and> partNumber sk = ''WO_INFO_ONLY'' \<and> shortageQty sk = 0
                \<and> status sk = Ready \<and> isArchived sk = False
                \<and> purchaserReplyDate sk = [] \<and> purchaserRemark sk = []
                \<and> purchaserUsername sk = [])"
  proof
    assume h: "(\<forall>row\<in>set (trackingSchedule (db s)). workOrder row \<noteq> W)
        \<and> W \<in> WODetail.workOrder ` set data"
    then have none: "filter (\<lambda>r. workOrder r = W) (fst (trackingSchedule (db s), 0::nat)) = []"
      by (simp add: filter_empty_conv)
    from h have "filter (\<lambda>info. WODetail.workOrder info = W) data \<noteq> []"
      by (auto simp: filter_empty_conv)
    then obtain i0 rest where "filter (\<lambda>info. WODetail.workOrder info = W) data = i0 # rest"
      by (cases "filter (\<lambda>info. WODetail.workOrder info = W) data") auto
    from woLoop_unknown [OF none this] obtain m where
      f: "filter (\<lambda>r. workOrder r = W) (fst (woLoop env 0 data (trackingSchedule (db s), 0)))
            = [fold updateMeta rest (skeleton env m i0)]" by blast
    obtain a b c d e where
      sh: "fold updateMeta rest (skeleton env m i0) =
         (skeleton env m i0)\<lparr>model := a, vendor := b, productPartNumber := c,
                             productionDate := d, stage := e\<rparr>"
      using fold_updateMeta_shape by blast
    show "\<exists>sk. filter (\<lambda>r. workOrder r = W)
                     (trackingSchedule (db (fst (importWODetails env data s)))) = [sk]
                \<and> partNumber sk = ''WO_INFO_ONLY'' \<and> shortageQty sk = 0
                \<and> status sk = Ready \<and> isArchived sk = False
                \<and> purchaserReplyDate sk = [] \<and> purchaserRemark sk = []
                \<and> purchaserUsername sk = []"
      unfolding importWODetails_rows f sh by (simp add: skeleton_def)
  qed
  from step batch show ?thesis by (simp add: skeleton_def)
qed

theorem importWODetails_creates_skeleton_witness:
  "''WO-1'' \<notin> workOrder ` set (trackingSchedule (db (serviceOf [] [])))
   \<and> ''WO-1'' \<in> WODetail.workOrder ` set [woA, vendorOnly]
   \<and> trackingSchedule (db (fst (importWODetails exampleEnv [woA] (serviceOf [] []))))
       = [skeleton exampleEnv 0 woA]
   \<and> status (skeleton exampleEnv 0 woA) = Ready
   \<and> (\<exists>sk. filter (\<lambda>r. workOrder r = ''WO-1'')
              (trackingSchedule (db (fst (importWODetails exampleEnv [woA, vendorOnly]
                 (serviceOf [] []))))) = [sk]
          \<and> partNumber sk = ''WO_INFO_ONLY'' \<and> shortageQty sk = 0 \<and> status sk = Ready)"
proof -
  have a1: "\<forall>row\<in>set []. workOrder row \<noteq> WODetail.workOrder woA" by simp
  have a2: "(\<forall>row\<in>set (trackingSchedule (db (serviceOf [] []))). workOrder row \<noteq> ''WO-1'')
     \<and> ''WO-1'' \<in> WODetail.workOrder ` set [woA, vendorOnly]"
    by (simp add: serviceOf_def woA_def)
  note th = importWODetails_creates_skeleton [where rows = "[]" and info = woA
      and env = exampleEnv and n = 0 and c = 0 and us = "[]" and s = "serviceOf [] []"
      and W = "''WO-1''" and data = "[woA, vendorOnly]"]
  from th a1 have "trackingSchedule (db (fst (importWODetails exampleEnv [woA] (serviceOf [] []))))
       = [] @ [skeleton exampleEnv 0 woA]" by blast
  then have s1: "trackingSchedule (db (fst (importWODetails exampleEnv [woA] (serviceOf [] []))))
       = [skeleton exampleEnv 0 woA]" by simp
  from th have s2: "status (skeleton exampleEnv 0 woA) = Ready" by blast
  from th a2 have s3: "\<exists>sk. filter (\<lambda>r. workOrder r = ''WO-1'')
              (trackingSchedule (db (fst (importWODetails exampleEnv [woA, vendorOnly]
                 (serviceOf [] []))))) = [sk]
          \<and> partNumber sk = ''WO_INFO_ONLY'' \<and> shortageQty sk = 0 \<and> status sk = Ready"
    by blast
  have a3: "''WO-1'' \<notin> workOrder ` set (trackingSchedule (db (serviceOf [] [])))"
    by (simp add: serviceOf_def)
  from a2 a3 s1 s2 s3 show ?thesis by blast
qed

text \<open>
  C7. Partial records: for a record whose work order some row has, each row of that work
  order gets the record's model, vendor, product part number, production date and stage
  where the record's value is non-empty, and keeps its own value where the record's value
  is absent or empty; its other fields, and the rows of other work orders, are unchanged.
\<close>

theorem importWODetails_partial_update:
  assumes "i < length rows" and "workOrder (rows ! i) = WODetail.workOrder info"
  shows "length (fst (woRecord env n info (rows, c))) = length rows
   \<and> model (fst (woRecord env n info (rows, c)) ! i) =
       (if WODetail.model info \<noteq> [] then WODetail.model info else model (rows ! i))
   \<and> vendor (fst (woRecord env n info (rows, c)) ! i) =
       (if WODetail.vendor info \<noteq> [] then WODetail.vendor info else vendor (rows ! i))
   \<and> productPartNumber (fst (woRecord env n info (rows, c)) ! i) =
       (if truthy (WODetail.productPartNumber info) then WODetail.productPartNumber info
        else productPartNumber (rows ! i))
   \<and> productionDate (fst (woRecord env n info (rows, c)) ! i) =
       (if truthy (WODetail.productionDate info) then WODetail.productionDate info
        else productionDate (rows ! i))
   \<and> stage (fst (woRecord env n info (rows, c)) ! i) =
       (if truthy (WODetail.stage info) then normStage (WODetail.stage info)
        else stage (rows ! i))
   \<and> (fst (woRecord env n info (rows, c)) ! i)
        \<lparr>model := model (rows ! i), vendor := vendor (rows ! i),
         productPartNumber := productPartNumber (rows ! i),
         productionDate := productionDate (rows ! i), stage := stage (rows ! i)\<rparr>
       = rows ! i
   \<and> (\<forall>j<length rows. workOrder (rows ! j) \<noteq> WODetail.workOrder info \<longrightarrow>
         fst (woRecord env n info (rows, c)) ! j = rows ! j)
   \<and> trackingSchedule (db (fst (importWODetails env [info] (serviceOf us rows))))
       = fst (woRecord env 0 info (rows, 0))"
proof -
  from assms have ex: "\<exists>row\<in>set rows. workOrder row = WODetail.workOrder info"
    using nth_mem by blast
  have res: "fst (woRecord env n info (rows, c)) =
           map (\<lambda>row. if workOrder row = WODetail.workOrder info
                       then updateMeta info row else row) rows"
    using ex by (rule woRecord_update)
  have svc: "trackingSchedule (db (fst (importWODetails env [info] (serviceOf us rows))))
       = fst (woRecord env 0 info (rows, 0))"
    by (simp add: importWODetails_rows serviceOf_def)
  have row: "fst (woRecord env n info (rows, c)) ! i = updateMeta info (rows ! i)"
    using assms by (simp add: res)
  show ?thesis
    unfolding row svc using assms by (simp add: updateMeta_def res)
qed

theorem importWODetails_partial_update_witness:
  "0 < length [trackingRow ''WO-1'' ''PN-1'' 5 Pending]
   \<and> workOrder ([trackingRow ''WO-1'' ''PN-1'' 5 Pending] ! 0) = WODetail.workOrder vendorOnly
   \<and> model (fst (woRecord exampleEnv 0 vendorOnly
                ([trackingRow ''WO-1'' ''PN-1'' 5 Pending], 0)) ! 0) = ''ModelA''
   \<and> vendor (fst (woRecord exampleEnv 0 vendorOnly
                ([trackingRow ''WO-1'' ''PN-1'' 5 Pending], 0)) ! 0) = ''VendorZ''
   \<and> productPartNumber (fst (woRecord exampleEnv 0 vendorOnly
                ([trackingRow ''WO-1'' ''PN-1'' 5 Pending], 0)) ! 0) = Some ''P-100''
   \<and> productionDate (fst (woRecord exampleEnv 0 vendorOnly
                ([trackingRow ''WO-1'' ''PN-1'' 5 Pending], 0)) ! 0) = Some ''2025-01-15''
   \<and> stage (fst (woRecord exampleEnv 0 vendorOnly
                ([trackingRow ''WO-1'' ''PN-1'' 5 Pending], 0)) ! 0) = ''Assembly''"
proof -
  let ?rows = "[trackingRow ''WO-1'' ''PN-1'' 5 Pending]"
  let ?res = "fst (woRecord exampleEnv 0 vendorOnly (?rows, 0)) ! 0"
  have h1: "0 < length ?rows" by simp
  have h2: "workOrder (?rows ! 0) = WODetail.workOrder vendorOnly"
    by (simp add: trackingRow_def vendorOnly_def)
  note th = importWODetails_partial_update [OF h1 h2, of exampleEnv 0 0 "[]"]
  from th have "model ?res =
       (if WODetail.model vendorOnly \<noteq> [] then WODetail.model vendorOnly
        else model (?rows ! 0))" by blast
  then have m: "model ?res = ''ModelA''" by (simp add: vendorOnly_def trackingRow_def)
  from th have "vendor ?res =
       (if WODetail.vendor vendorOnly \<noteq> [] then WODetail.vendor vendorOnly
        else vendor (?rows ! 0))" by blast
  then have v: "vendor ?res = ''VendorZ''" by (simp add: vendorOnly_def)
  from th have "productPartNumber ?res =
       (if truthy (WODetail.productPartNumber vendorOnly)
        then WODetail.productPartNumber vendorOnly else productPartNumber (?rows ! 0))"
    by blast
  then have p: "productPartNumber ?res = Some ''P-100''"
    by (simp add: vendorOnly_def trackingRow_def truthy_def)
  from th have "productionDate ?res =
       (if truthy (WODetail.productionDate vendorOnly)
        then WODetail.productionDate vendorOnly else productionDate (?rows ! 0))"
    by blast
  then have d: "productionDate ?res = Some ''2025-01-15''"
    by (simp add: vendorOnly_def trackingRow_def truthy_def)
  from th have "stage ?res =
       (if truthy (WODetail.stage vendorOnly) then normStage (WODetail.stage vendorOnly)
        else stage (?rows ! 0))" by blast
  then have g: "stage ?res = ''Assembly''"
    by (simp add: vendorOnly_def trackingRow_def truthy_def)
  from h1 h2 m v p d g show ?thesis by blast
qed

end
